theory Spec2Isabelle
  imports Complex_Main
begin

section \<open>aiogt: the graceful timeout timer\<close>

text \<open>
  A shallow embedding of \<^verbatim>\<open>src/aiogt/__init__.py\<close>. The class \<^verbatim>\<open>GracefulTimeout\<close> is a
  record of its slots, each method is a function from the object before the call to the
  outcome of the call together with the object after it. Python's exceptions are values
  (\<open>Raise\<close>), and a coroutine parked at an \<^verbatim>\<open>await\<close> is the outcome \<open>Suspend\<close>.

  Times are Python floats in the source. The model is polymorphic in the type of times and
  uses nothing of it but the comparison \<open>\<le>\<close> and the addition \<open>+\<close> that the source applies,
  with no law assumed of either, so that every general theorem below holds whatever a float
  comparison or a float addition returns.
\<close>

subsection \<open>The event loop, as far as the timer uses it\<close>

text \<open>
  The timer calls \<^verbatim>\<open>loop.time()\<close>, \<^verbatim>\<open>loop.call_soon(cb)\<close>, \<^verbatim>\<open>loop.call_at(when, cb)\<close> and
  \<^verbatim>\<open>handle.cancel()\<close>. The loop is the standard library's, not this repository's: it is
  modelled as a clock value and the list of the handles it has handed out to the timer. A
  handle is named by its index in that list, which never shrinks, so that the reference the
  timer keeps in \<^verbatim>\<open>_timeout_handler\<close> and the handle the loop holds are one object.
\<close>

datatype 't schedule = Soon | At 't

record 't Handle =
  schedule :: "'t schedule"
  cancelled :: bool
  ran :: bool

record 't Loop =
  time :: 't
  handles :: "'t Handle list"

definition fresh_loop :: "'t \<Rightarrow> 't Loop" where
  "fresh_loop now = \<lparr>time = now, handles = []\<rparr>"

definition call_soon :: "'t Loop \<Rightarrow> nat \<times> 't Loop" where
  "call_soon lp =
     (length (handles lp),
      lp\<lparr>handles := handles lp @ [\<lparr>schedule = Soon, cancelled = False, ran = False\<rparr>]\<rparr>)"

definition call_at :: "'t \<Rightarrow> 't Loop \<Rightarrow> nat \<times> 't Loop" where
  "call_at d lp =
     (length (handles lp),
      lp\<lparr>handles := handles lp @ [\<lparr>schedule = At d, cancelled = False, ran = False\<rparr>]\<rparr>)"

text \<open>
  \<^verbatim>\<open>Handle.cancel()\<close> sets the handle's flag. An index the loop never handed out names no
  handle; \<open>list_update\<close> leaves the list as it is there.
\<close>

definition cancel :: "nat \<Rightarrow> 't Loop \<Rightarrow> 't Loop" where
  "cancel h lp = lp\<lparr>handles := (handles lp)[h := (handles lp ! h)\<lparr>cancelled := True\<rparr>]\<rparr>"

text \<open>A handle is pending while the loop may still run its callback.\<close>

definition pending :: "nat \<Rightarrow> 't Loop \<Rightarrow> bool" where
  "pending h lp \<longleftrightarrow>
     h < length (handles lp) \<and> \<not> cancelled (handles lp ! h) \<and> \<not> ran (handles lp ! h)"

definition mark_ran :: "nat \<Rightarrow> 't Loop \<Rightarrow> 't Loop" where
  "mark_ran h lp = lp\<lparr>handles := (handles lp)[h := (handles lp ! h)\<lparr>ran := True\<rparr>]\<rparr>"

subsection \<open>The timer object\<close>

text \<open>\<^verbatim>\<open>class _State(IntEnum)\<close>: INIT = 0, ENTER = 1, TIMEOUT = 2, EXIT = 3.\<close>

datatype State = INIT | ENTER | TIMEOUT | EXIT

fun State_value :: "State \<Rightarrow> string" where
  "State_value INIT = ''0''"
| "State_value ENTER = ''1''"
| "State_value TIMEOUT = ''2''"
| "State_value EXIT = ''3''"

text \<open>
  The slots of \<^verbatim>\<open>GracefulTimeout\<close>. \<open>event\<close> is the flag of the \<^verbatim>\<open>asyncio.Event\<close> in
  \<^verbatim>\<open>_event\<close>; \<open>timeout_handler\<close> is the index of the handle in \<open>loop\<close>.
\<close>

record 't GracefulTimeout =
  deadline :: "'t option"
  loop :: "'t Loop"
  state :: State
  timeout_handler :: "nat option"
  event :: bool
  checked :: bool

text \<open>
  Every exception of the source is a \<^verbatim>\<open>RuntimeError\<close> told apart by its message, or the
  \<^verbatim>\<open>AssertionError\<close> of the \<^verbatim>\<open>assert\<close> in \<^verbatim>\<open>_reschedule\<close>. The message of the exit check
  ends in \<^verbatim>\<open>repr(self)\<close> in the source, which holds a memory address and is left out here.
\<close>

datatype error = RuntimeError string | AssertionError

abbreviation not_checked_error :: error where
  "not_checked_error \<equiv> RuntimeError ''graceful timers should always be checked or waited upon''"

abbreviation exited_error :: error where
  "exited_error \<equiv> RuntimeError ''cannot reschedule after exit from context manager''"

abbreviation expired_error :: error where
  "expired_error \<equiv> RuntimeError ''cannot reschedule expired timeout''"

abbreviation no_deadline_error :: error where
  "no_deadline_error \<equiv> RuntimeError ''cannot shift timeout if deadline is not scheduled''"

definition invalid_state_error :: "State \<Rightarrow> error" where
  "invalid_state_error s = RuntimeError (''invalid state '' @ State_value s)"

text \<open>
  The outcome of a call: the value returned, the exception raised, or a coroutine parked at
  an \<^verbatim>\<open>await\<close>; each with the object as the call leaves it.
\<close>

datatype ('a, 's) result = Return 'a 's | Raise error 's | Suspend 's

fun post :: "('a, 's) result \<Rightarrow> 's" where
  "post (Return v s) = s"
| "post (Raise e s) = s"
| "post (Suspend s) = s"

fun raises :: "('a, 's) result \<Rightarrow> bool" where
  "raises (Raise e s) = True"
| "raises (Return v s) = False"
| "raises (Suspend s) = False"

text \<open>The other exception types that \<^verbatim>\<open>__aexit__\<close> can be handed are one case here.\<close>

datatype exc = CancelledError | OtherException

subsection \<open>The methods\<close>

text \<open>
  The source writes \<^verbatim>\<open>if self._timeout_handler is not None: self._timeout_handler.cancel()\<close>
  in \<^verbatim>\<open>update\<close> and in \<^verbatim>\<open>_reschedule\<close>; \<open>cancel_handler\<close> is that statement. \<^verbatim>\<open>_reject\<close>
  clears the slot as well.
\<close>

definition cancel_handler :: "'t GracefulTimeout \<Rightarrow> 't GracefulTimeout" where
  "cancel_handler self =
     (case timeout_handler self of
        None \<Rightarrow> self
      | Some h \<Rightarrow> self\<lparr>loop := cancel h (loop self)\<rparr>)"

definition reschedule :: "('t::ord) GracefulTimeout \<Rightarrow> (unit, 't GracefulTimeout) result" where
  "reschedule self =
     (if state self \<noteq> ENTER then Raise AssertionError self
      else case deadline self of
        None \<Rightarrow> Return () self
      | Some d \<Rightarrow>
          (let now = time (loop self);
               self1 = cancel_handler self;
               (h, lp) = (if d \<le> now then call_soon (loop self1) else call_at d (loop self1))
           in Return () (self1\<lparr>loop := lp, timeout_handler := Some h\<rparr>)))"

definition on_timeout :: "'t GracefulTimeout \<Rightarrow> 't GracefulTimeout" where
  "on_timeout self = self\<lparr>state := TIMEOUT, event := True, timeout_handler := None\<rparr>"

definition update :: "'t \<Rightarrow> ('t::ord) GracefulTimeout \<Rightarrow> (unit, 't GracefulTimeout) result" where
  "update d self =
     (if state self = EXIT then Raise exited_error self
      else if state self = TIMEOUT then Raise expired_error self
      else (let self1 = (cancel_handler self)\<lparr>deadline := Some d\<rparr>
            in if state self1 \<noteq> INIT then reschedule self1 else Return () self1))"

definition shift :: "'t \<Rightarrow> ('t::{ord,plus}) GracefulTimeout \<Rightarrow> (unit, 't GracefulTimeout) result" where
  "shift delay self =
     (case deadline self of
        None \<Rightarrow> Raise no_deadline_error self
      | Some d \<Rightarrow> update (d + delay) self)"

definition reject :: "'t GracefulTimeout \<Rightarrow> 't GracefulTimeout" where
  "reject self =
     (case timeout_handler self of
        None \<Rightarrow> self
      | Some h \<Rightarrow> self\<lparr>loop := cancel h (loop self), timeout_handler := None\<rparr>)"

definition do_exit :: "exc option \<Rightarrow> 't GracefulTimeout \<Rightarrow> (unit, 't GracefulTimeout) result" where
  "do_exit exc_type self =
     (let self1 = (if exc_type = Some CancelledError \<and> state self = TIMEOUT
                   then self\<lparr>timeout_handler := None\<rparr> else self)
      in if \<not> checked self1 then Raise not_checked_error self1
         else Return () (reject (self1\<lparr>state := EXIT\<rparr>)))"

definition do_enter :: "('t::ord) GracefulTimeout \<Rightarrow> (unit, 't GracefulTimeout) result" where
  "do_enter self =
     (if state self \<noteq> INIT then Raise (invalid_state_error (state self)) self
      else reschedule (self\<lparr>state := ENTER\<rparr>))"

text \<open>
  \<^verbatim>\<open>__init__\<close>. The source leaves the slot \<^verbatim>\<open>_deadline\<close> unset until \<^verbatim>\<open>update\<close> assigns it;
  \<^verbatim>\<open>update\<close> does not read it before, so the unset slot is \<open>None\<close> here.
\<close>

definition init :: "'t option \<Rightarrow> 't Loop \<Rightarrow> (unit, ('t::ord) GracefulTimeout) result" where
  "init dl lp =
     (let self = \<lparr>deadline = None, loop = lp, state = INIT, timeout_handler = None,
                  event = False, checked = False\<rparr>
      in case dl of
           None \<Rightarrow> Return () (self\<lparr>deadline := None\<rparr>)
         | Some d \<Rightarrow> update d self)"

definition graceful_timeout ::
    "'t option \<Rightarrow> 't Loop \<Rightarrow> (unit, ('t::{ord,plus}) GracefulTimeout) result" where
  "graceful_timeout delay lp =
     init (case delay of Some dly \<Rightarrow> Some (time lp + dly) | None \<Rightarrow> None) lp"

definition graceful_timeout_at ::
    "'t option \<Rightarrow> 't Loop \<Rightarrow> (unit, ('t::ord) GracefulTimeout) result" where
  "graceful_timeout_at dl lp = init dl lp"

text \<open>
  \<^verbatim>\<open>wait\<close> sets \<^verbatim>\<open>_checked\<close> and awaits \<^verbatim>\<open>Event.wait()\<close>, which returns \<^verbatim>\<open>True\<close> at once when
  the event is set and parks the caller otherwise. \<open>wait_resumed\<close> is the parked coroutine
  looked at again: it returns once the event is set.
\<close>

definition Event_wait :: "'t GracefulTimeout \<Rightarrow> (bool, 't GracefulTimeout) result" where
  "Event_wait self = (if event self then Return True self else Suspend self)"

definition wait :: "'t GracefulTimeout \<Rightarrow> (bool, 't GracefulTimeout) result" where
  "wait self = Event_wait (self\<lparr>checked := True\<rparr>)"

definition wait_resumed :: "'t GracefulTimeout \<Rightarrow> (bool, 't GracefulTimeout) result" where
  "wait_resumed self = Event_wait self"

text \<open>
  \<^verbatim>\<open>is_running\<close> awaits \<^verbatim>\<open>_s_heartbeat()\<close>, a bare \<^verbatim>\<open>yield\<close>: the coroutine is parked for one
  pass of the loop whatever the timer's state. When the loop resumes it, it evaluates
  \<^verbatim>\<open>not self._state != _State.TIMEOUT\<close> on the object as it is then; \<^verbatim>\<open>not\<close> binds weaker
  than \<^verbatim>\<open>!=\<close>.
\<close>

definition s_heartbeat :: "'s \<Rightarrow> (unit, 's) result" where
  "s_heartbeat self = Suspend self"

definition is_running :: "'t GracefulTimeout \<Rightarrow> (bool, 't GracefulTimeout) result" where
  "is_running self = Suspend (post (s_heartbeat self))"

definition is_running_resumed :: "'t GracefulTimeout \<Rightarrow> (bool, 't GracefulTimeout) result" where
  "is_running_resumed self = Return (\<not> (state self \<noteq> TIMEOUT)) self"

subsection \<open>Runs of a timer on its loop\<close>

text \<open>
  The loop is single threaded: between two suspension points a method runs alone. A run is
  a list of actions, each a call of a method or a move of the loop. The loop runs the
  callback of a handle only while the handle is pending (it skips cancelled handles and
  runs a handle once), and it may do so at any time: the model does not say when a handle
  is due, so it has every run of the real loop and more. The clock may show any value.
  Resuming a parked \<^verbatim>\<open>wait\<close> or \<^verbatim>\<open>is_running\<close> changes nothing of the object and is no
  action of its own.
\<close>

datatype 't action =
    Enter | Exit "exc option" | Update 't | Shift 't | Wait | IsRunning
  | Fire nat | Clock 't

definition run_handle :: "nat \<Rightarrow> 't GracefulTimeout \<Rightarrow> 't GracefulTimeout" where
  "run_handle h self = on_timeout (self\<lparr>loop := mark_ran h (loop self)\<rparr>)"

fun enabled :: "'t action \<Rightarrow> 't GracefulTimeout \<Rightarrow> bool" where
  "enabled (Fire h) self = pending h (loop self)"
| "enabled a self = True"

fun exec :: "('t::{ord,plus}) action \<Rightarrow> 't GracefulTimeout \<Rightarrow> 't GracefulTimeout" where
  "exec Enter self = post (do_enter self)"
| "exec (Exit exc_type) self = post (do_exit exc_type self)"
| "exec (Update d) self = post (update d self)"
| "exec (Shift delay) self = post (shift delay self)"
| "exec Wait self = post (wait self)"
| "exec IsRunning self = post (is_running self)"
| "exec (Fire h) self = run_handle h self"
| "exec (Clock now) self = self\<lparr>loop := (loop self)\<lparr>time := now\<rparr>\<rparr>"

fun run :: "('t::{ord,plus}) action list \<Rightarrow> 't GracefulTimeout \<Rightarrow> 't GracefulTimeout option" where
  "run [] self = Some self"
| "run (a # as) self = (if enabled a self then run as (exec a self) else None)"

subsection \<open>The invariant of a timer on its loop\<close>

text \<open>
  What every run keeps true: the handle the timer refers to is the one pending handle of
  the loop, a timer holds a handle only while entered and with a deadline, and the event is
  set only in a timer that has fired or was closed afterwards.
\<close>

definition timer_inv :: "'t GracefulTimeout \<Rightarrow> bool" where
  "timer_inv self \<longleftrightarrow>
     (\<forall>h. pending h (loop self) \<longleftrightarrow> timeout_handler self = Some h) \<and>
     (timeout_handler self \<noteq> None \<longrightarrow> state self = ENTER \<and> deadline self \<noteq> None) \<and>
     (event self \<longrightarrow> state self = TIMEOUT \<or> state self = EXIT)"

section \<open>Properties\<close>

subsection \<open>The loop's handles\<close>

lemma pending_cancel [simp]: "pending h' (cancel h lp) \<longleftrightarrow> pending h' lp \<and> h' \<noteq> h"
  by (cases "h' = h") (auto simp: pending_def cancel_def)

lemma pending_mark_ran [simp]: "pending h' (mark_ran h lp) \<longleftrightarrow> pending h' lp \<and> h' \<noteq> h"
  by (cases "h' = h") (auto simp: pending_def mark_ran_def)

lemma pending_call_soon [simp]:
  "pending h' (snd (call_soon lp)) \<longleftrightarrow> pending h' lp \<or> h' = length (handles lp)"
  by (auto simp: pending_def call_soon_def nth_append)

lemma pending_call_at [simp]:
  "pending h' (snd (call_at d lp)) \<longleftrightarrow> pending h' lp \<or> h' = length (handles lp)"
  by (auto simp: pending_def call_at_def nth_append)

lemma fst_call_soon [simp]: "fst (call_soon lp) = length (handles lp)"
  by (simp add: call_soon_def)

lemma fst_call_at [simp]: "fst (call_at d lp) = length (handles lp)"
  by (simp add: call_at_def)

lemma pending_time [simp]: "pending h (lp\<lparr>time := now\<rparr>) \<longleftrightarrow> pending h lp"
  by (simp add: pending_def)

lemma pending_bound: "pending h lp \<Longrightarrow> h < length (handles lp)"
  by (simp add: pending_def)

lemma length_cancel [simp]: "length (handles (cancel h lp)) = length (handles lp)"
  by (simp add: cancel_def)

subsection \<open>The assertion of \<^verbatim>\<open>_reschedule\<close>\<close>

lemma reschedule_returns: "state self = ENTER \<Longrightarrow> \<not> raises (reschedule self)"
  by (simp add: reschedule_def Let_def split_beta split: option.splits)

subsection \<open>Every action keeps the invariant\<close>

lemma reschedule_inv:
  assumes "state self = ENTER" "\<not> event self"
    and "\<forall>h. pending h (loop self) \<longrightarrow> timeout_handler self = Some h"
    and "deadline self = None \<longrightarrow> timeout_handler self = None"
  shows "timer_inv (post (reschedule self))"
  using assms
  by (auto simp: reschedule_def timer_inv_def cancel_handler_def Let_def split_beta
      dest: pending_bound split: option.splits)

lemma do_enter_inv:
  assumes "timer_inv self"
  shows "timer_inv (post (do_enter self))"
proof (cases "state self = INIT")
  case True
  with assms have "timeout_handler self = None" "\<not> event self" "\<forall>h. \<not> pending h (loop self)"
    by (auto simp: timer_inv_def)
  then have "timer_inv (post (reschedule (self\<lparr>state := ENTER\<rparr>)))"
    by (intro reschedule_inv) simp_all
  with True show ?thesis by (simp add: do_enter_def)
next
  case False
  with assms show ?thesis by (simp add: do_enter_def)
qed

lemma update_inv:
  assumes "timer_inv self"
  shows "timer_inv (post (update d self))"
proof (cases "state self")
  case INIT
  with assms have "timeout_handler self = None"
    by (auto simp: timer_inv_def)
  with assms INIT show ?thesis
    by (simp add: update_def cancel_handler_def timer_inv_def)
next
  case ENTER
  let ?s = "(cancel_handler self)\<lparr>deadline := Some d\<rparr>"
  from assms ENTER have "state ?s = ENTER" and "\<not> event ?s"
    and "\<forall>h. pending h (loop ?s) \<longrightarrow> timeout_handler ?s = Some h"
    and "deadline ?s = None \<longrightarrow> timeout_handler ?s = None"
    by (auto simp: timer_inv_def cancel_handler_def split: option.splits)
  then have "timer_inv (post (reschedule ?s))"
    by (rule reschedule_inv)
  moreover have "update d self = reschedule ?s"
    using ENTER \<open>state ?s = ENTER\<close> by (simp add: update_def Let_def)
  ultimately show ?thesis by simp
next
  case TIMEOUT
  with assms show ?thesis by (simp add: update_def)
next
  case EXIT
  with assms show ?thesis by (simp add: update_def)
qed

lemma shift_inv: "timer_inv self \<Longrightarrow> timer_inv (post (shift delay self))"
  by (auto simp: shift_def update_inv split: option.splits)

lemma do_exit_inv: "timer_inv self \<Longrightarrow> timer_inv (post (do_exit exc_type self))"
  by (auto simp: do_exit_def timer_inv_def reject_def Let_def split: option.splits)

lemma wait_inv: "timer_inv self \<Longrightarrow> timer_inv (post (wait self))"
  by (auto simp: wait_def Event_wait_def timer_inv_def)

lemma is_running_inv: "timer_inv self \<Longrightarrow> timer_inv (post (is_running self))"
  by (auto simp: is_running_def s_heartbeat_def)

lemma run_handle_inv: "timer_inv self \<Longrightarrow> pending h (loop self) \<Longrightarrow> timer_inv (run_handle h self)"
  by (auto simp: run_handle_def on_timeout_def timer_inv_def)

lemma exec_inv: "timer_inv self \<Longrightarrow> enabled a self \<Longrightarrow> timer_inv (exec a self)"
  by (cases a)
     (auto simp: do_enter_inv update_inv shift_inv do_exit_inv wait_inv is_running_inv
        run_handle_inv,
      simp add: timer_inv_def)

lemma run_inv: "timer_inv self \<Longrightarrow> run as self = Some self' \<Longrightarrow> timer_inv self'"
proof (induction as arbitrary: self)
  case Nil
  then show ?case by simp
next
  case (Cons a as)
  from Cons.prems(2) have en: "enabled a self" and rest: "run as (exec a self) = Some self'"
    by (auto split: if_splits)
  from Cons.prems(1) en have "timer_inv (exec a self)" by (rule exec_inv)
  then show ?case using rest by (rule Cons.IH)
qed

lemma init_inv: "timer_inv (post (init dl (fresh_loop now)))"
  by (auto simp: init_def update_def cancel_handler_def timer_inv_def fresh_loop_def
      pending_def Let_def split: option.splits)

subsection \<open>Evaluating the methods on concrete timers\<close>

lemmas timer_defs =
  init_def update_def reschedule_def cancel_handler_def do_enter_def do_exit_def reject_def
  on_timeout_def shift_def wait_def Event_wait_def is_running_def is_running_resumed_def
  s_heartbeat_def run_handle_def fresh_loop_def call_soon_def call_at_def cancel_def
  mark_ran_def pending_def invalid_state_error_def

subsection \<open>Polling: \<^verbatim>\<open>is_running\<close>\<close>

text \<open>
  The value \<^verbatim>\<open>is_running\<close> returns is \<^verbatim>\<open>not (state != TIMEOUT)\<close>, that is, whether the
  timer has expired; and neither half of the call writes \<^verbatim>\<open>_checked\<close>.
\<close>

lemma is_running_resumed_iff: "is_running_resumed self = Return (state self = TIMEOUT) self"
  by (simp add: is_running_resumed_def)

lemma is_running_checked:
  "checked (post (is_running self)) = checked self"
  "checked (post (is_running_resumed self)) = checked self"
  by (simp_all add: is_running_def is_running_resumed_def s_heartbeat_def)

text \<open>
  Claim C1 says that \<^verbatim>\<open>is_running()\<close> suspends for one tick and then returns true exactly
  when the timer is not expired, and always true for a timer without a deadline. The code
  evaluated on a timer made without a deadline and entered: the call is parked once, and
  resumed in state \<open>ENTER\<close> it returns \<open>False\<close>.
\<close>

theorem is_running_entered_no_deadline:
  "is_running_resumed (post (is_running (post (do_enter (post (init None (fresh_loop (0::real))))))))
     = Return False \<lparr>deadline = None, loop = \<lparr>time = 0, handles = []\<rparr>, state = ENTER,
                      timeout_handler = None, event = False, checked = False\<rparr>"
  by (simp add: timer_defs)

text \<open>
  Claim C2 says that a call of \<^verbatim>\<open>is_running()\<close> marks the timer as observed, so that the
  scope can be left without the usage error. The code evaluated on a timer made without a
  deadline, entered and polled once: \<^verbatim>\<open>_checked\<close> is still false and leaving the scope with
  no exception in flight raises the \<^verbatim>\<open>RuntimeError\<close> of the exit check.
\<close>

theorem exit_after_is_running_raises:
  "do_exit None (post (is_running_resumed (post (is_running
       (post (do_enter (post (init None (fresh_loop (0::real))))))))))
     = Raise not_checked_error
         \<lparr>deadline = None, loop = \<lparr>time = 0, handles = []\<rparr>, state = ENTER,
          timeout_handler = None, event = False, checked = False\<rparr>"
  by (simp add: timer_defs)

subsection \<open>Leaving the scope: \<^verbatim>\<open>_do_exit\<close>\<close>

text \<open>
  \<^verbatim>\<open>_do_exit\<close> looks at \<^verbatim>\<open>exc_type\<close> only to drop the handle of a timer that has fired; the
  test of \<^verbatim>\<open>_checked\<close> that follows does not depend on it. So the call raises exactly when
  \<^verbatim>\<open>_checked\<close> is false, with the state and the loop untouched, and otherwise closes the
  timer and leaves it without a handle.
\<close>

lemma do_exit_outcome:
  "(raises (do_exit exc_type self) \<longleftrightarrow> \<not> checked self) \<and>
   (\<not> checked self \<longrightarrow>
      (\<exists>self'. do_exit exc_type self = Raise not_checked_error self' \<and>
         state self' = state self \<and> loop self' = loop self)) \<and>
   (checked self \<longrightarrow>
      (\<exists>self'. do_exit exc_type self = Return () self' \<and>
         state self' = EXIT \<and> timeout_handler self' = None)) \<and>
   (checked self \<and> exc_type = Some CancelledError \<and> state self = TIMEOUT \<longrightarrow>
      do_exit exc_type self = Return () (self\<lparr>timeout_handler := None, state := EXIT\<rparr>))"
  by (auto simp: do_exit_def reject_def Let_def split: option.splits)

text \<open>
  Claim C3 says that the usage error is raised only when the scope is left cleanly, and
  not when another exception, a cancellation in particular, is already propagating out of
  the guarded block. The code evaluated on a timer made with deadline 5 and entered, whose
  guarded block never reached \<^verbatim>\<open>wait()\<close>: left after the timer has fired with
  \<^verbatim>\<open>CancelledError\<close> in flight, and left before it has fired with another exception in
  flight, \<^verbatim>\<open>_do_exit\<close> raises the \<^verbatim>\<open>RuntimeError\<close> of the exit check both times, which
  \<^verbatim>\<open>__aexit__\<close> lets out in place of the exception in flight.
\<close>

theorem do_exit_cancelled_unchecked_raises:
  "do_exit (Some CancelledError)
       (exec (Fire 0) (exec Enter (post (init (Some 5) (fresh_loop (0::real))))))
     = Raise not_checked_error
         \<lparr>deadline = Some 5,
          loop = \<lparr>time = 0, handles = [\<lparr>schedule = At 5, cancelled = False, ran = True\<rparr>]\<rparr>,
          state = TIMEOUT, timeout_handler = None, event = True, checked = False\<rparr> \<and>
   do_exit (Some OtherException) (exec Enter (post (init (Some 5) (fresh_loop (0::real)))))
     = Raise not_checked_error
         \<lparr>deadline = Some 5,
          loop = \<lparr>time = 0, handles = [\<lparr>schedule = At 5, cancelled = False, ran = False\<rparr>]\<rparr>,
          state = ENTER, timeout_handler = Some 0, event = False, checked = False\<rparr>"
  by (simp add: timer_defs)

subsection \<open>The closed state\<close>

text \<open>
  Claim C4 says that the fire callback does nothing on a closed timer. It fails on the
  code: \<^verbatim>\<open>_on_timeout\<close> has no guard, and applied to a timer that was entered, waited on and
  closed it sets the state to \<open>TIMEOUT\<close>.
\<close>

theorem on_timeout_leaves_closed:
  "state (exec (Exit None) (exec Wait (exec Enter (post (init (Some 5) (fresh_loop (0::real)))))))
     = EXIT \<and>
   state (on_timeout
       (exec (Exit None) (exec Wait (exec Enter (post (init (Some 5) (fresh_loop (0::real))))))))
     = TIMEOUT"
  by (simp add: timer_defs)

text \<open>Every method leaves a closed timer closed.\<close>

lemma closed_exec:
  assumes "state self = EXIT" "\<forall>h. a \<noteq> Fire h"
  shows "state (exec a self) = EXIT"
  using assms
  by (cases a)
     (auto simp: do_enter_def do_exit_def reject_def update_def shift_def wait_def
        Event_wait_def is_running_def s_heartbeat_def Let_def split: option.splits)

text \<open>
  Claim C4 as the code has it: \<^verbatim>\<open>_on_timeout\<close> sets the state to \<open>TIMEOUT\<close> whatever the
  state was, and what keeps a closed timer closed is that the loop cannot run the callback
  then. In every run of a new timer, a handle of the timer is pending only while the state
  is \<open>ENTER\<close>, so the callback fires only from \<open>ENTER\<close>; once the state is \<open>EXIT\<close> no handle
  is pending, and every action the timer can then take leaves the state \<open>EXIT\<close>.
\<close>

theorem closed_is_terminal:
  assumes "run as (post (init dl (fresh_loop now))) = Some self"
  shows "state (on_timeout self) = TIMEOUT \<and>
         (enabled (Fire h) self \<longrightarrow> state self = ENTER) \<and>
         (state self = EXIT \<longrightarrow>
            \<not> enabled (Fire h) self \<and> (enabled a self \<longrightarrow> state (exec a self) = EXIT))"
proof -
  have inv: "timer_inv self"
    using init_inv assms by (rule run_inv)
  have fire: "state self = ENTER" if "enabled (Fire k) self" for k
    using that inv by (auto simp: timer_inv_def)
  have stay: "state (exec a self) = EXIT" if "state self = EXIT" "enabled a self"
  proof (rule closed_exec [OF that(1)], intro allI notI)
    fix k assume "a = Fire k"
    with that(2) have "state self = ENTER" using fire by simp
    with that(1) show False by simp
  qed
  show ?thesis
    using fire [of h] stay by (auto simp: on_timeout_def)
qed

subsection \<open>The pending callback\<close>

text \<open>
  Claim C8: the timer holds a pending callback only while its state is \<open>ENTER\<close>, its
  deadline is set and the fire callback has not run. This holds of a new timer and after
  every run of calls of enter, exit, update, shift, wait, is_running and moves of the loop
  (the fire callback, the clock): whenever \<^verbatim>\<open>_timeout_handler\<close> is not \<^verbatim>\<open>None\<close>, the state is
  \<open>ENTER\<close>, the deadline is not \<^verbatim>\<open>None\<close>, the event is not set, and the handle is still
  pending on the loop.
\<close>

theorem pending_callback_invariant:
  assumes "run as (post (init dl (fresh_loop now))) = Some self"
    and "timeout_handler self = Some h"
  shows "state self = ENTER \<and> deadline self \<noteq> None \<and> \<not> event self \<and> pending h (loop self)"
proof -
  have "timer_inv self"
    using init_inv assms(1) by (rule run_inv)
  with assms(2) show ?thesis
    by (auto simp: timer_inv_def)
qed

subsection \<open>Rescheduling\<close>

text \<open>
  Claim C5: on an entered timer, \<^verbatim>\<open>_reschedule\<close> schedules nothing when the deadline is
  \<^verbatim>\<open>None\<close>. Otherwise it cancels the handle the timer holds and registers one new handle,
  with \<^verbatim>\<open>call_soon\<close> when the deadline is at or before the loop's time and with \<^verbatim>\<open>call_at\<close>
  at the deadline when it is later. The callback is not run by the call: the state is
  still \<open>ENTER\<close>, the event is as before, and the new handle has not run.
\<close>

theorem reschedule_active:
  assumes "state self = ENTER"
  shows "(deadline self = None \<longrightarrow> reschedule self = Return () self) \<and>
         (\<forall>d. deadline self = Some d \<longrightarrow>
            (\<exists>self'. reschedule self = Return () self' \<and>
               state self' = ENTER \<and> event self' = event self \<and> deadline self' = Some d \<and>
               timeout_handler self' = Some (length (handles (loop self))) \<and>
               length (handles (loop self')) = Suc (length (handles (loop self))) \<and>
               handles (loop self') ! length (handles (loop self)) =
                 \<lparr>schedule = (if d \<le> time (loop self) then Soon else At d),
                  cancelled = False, ran = False\<rparr> \<and>
               (\<forall>h. timeout_handler self = Some h \<and> h < length (handles (loop self)) \<longrightarrow>
                    cancelled (handles (loop self') ! h))))"
  using assms
  by (auto simp: reschedule_def cancel_handler_def call_soon_def call_at_def cancel_def
      Let_def nth_append split: option.splits)

subsection \<open>Changing the deadline: \<^verbatim>\<open>update\<close> and \<^verbatim>\<open>shift\<close>\<close>

lemma update_active:
  assumes "state self = ENTER"
  shows "deadline (post (update d self)) = Some d \<and>
         schedule (last (handles (loop (post (update d self))))) =
           (if d \<le> time (loop self) then Soon else At d)"
  using assms
  by (auto simp: update_def reschedule_def cancel_handler_def call_soon_def call_at_def
      cancel_def Let_def split: option.splits)

text \<open>
  Claim C6: on a timer with deadline \<open>d\<close>, \<^verbatim>\<open>shift(delta)\<close> is \<^verbatim>\<open>update(d + delta)\<close>, for a
  delay of either sign: the same outcome and the same timer and loop afterwards. On an
  entered timer the deadline becomes \<open>d + delta\<close> and the newest handle of the loop is
  scheduled for it. With no deadline, \<^verbatim>\<open>shift\<close> raises its own error and leaves the timer as
  it was, so \<^verbatim>\<open>update\<close> has not run.
\<close>

theorem shift_is_update:
  "(deadline self = Some d \<longrightarrow> shift delta self = update (d + delta) self) \<and>
   (deadline self = Some d \<and> state self = ENTER \<longrightarrow>
      deadline (post (shift delta self)) = Some (d + delta) \<and>
      schedule (last (handles (loop (post (shift delta self))))) =
        (if d + delta \<le> time (loop self) then Soon else At (d + delta))) \<and>
   (deadline self = None \<longrightarrow> shift delta self = Raise no_deadline_error self)"
  by (simp add: shift_def update_active)

text \<open>
  Claim C7: \<^verbatim>\<open>update\<close> on a timer in state \<open>TIMEOUT\<close> raises the error for an expired
  timeout, and on a timer in state \<open>EXIT\<close> the error for a closed one, whatever the new
  deadline; the timer is left as it was.
\<close>

theorem update_after_expiry_or_close:
  "(state self = TIMEOUT \<longrightarrow> update d self = Raise expired_error self) \<and>
   (state self = EXIT \<longrightarrow> update d self = Raise exited_error self)"
  by (simp add: update_def)

lemma update_raise:
  assumes "update d self = Raise e self'"
  shows "self' = self \<and> (e = exited_error \<or> e = expired_error)"
proof (cases "state self")
  case INIT
  with assms show ?thesis by (simp add: update_def Let_def cancel_handler_def split: option.splits)
next
  case ENTER
  let ?s = "(cancel_handler self)\<lparr>deadline := Some d\<rparr>"
  have "state ?s = ENTER"
    using ENTER by (simp add: cancel_handler_def split: option.splits)
  then have ok: "\<not> raises (reschedule ?s)" by (rule reschedule_returns)
  have "update d self = reschedule ?s"
    using ENTER \<open>state ?s = ENTER\<close> by (simp add: update_def Let_def)
  with assms have "reschedule ?s = Raise e self'" by simp
  then have "raises (reschedule ?s)" by simp
  with ok show ?thesis by simp
next
  case TIMEOUT
  with assms show ?thesis by (simp add: update_def)
next
  case EXIT
  with assms show ?thesis by (simp add: update_def)
qed

text \<open>
  Claim C10: when \<^verbatim>\<open>update\<close> or \<^verbatim>\<open>shift\<close> raises, the timer after the call is the timer
  before it (the deadline, the state and the handle among the rest), and the error is one
  of: closed, expired, or, for \<^verbatim>\<open>shift\<close>, no deadline. The \<^verbatim>\<open>assert\<close> in \<^verbatim>\<open>_reschedule\<close>,
  which comes after the timer was changed, never fails in \<^verbatim>\<open>update\<close>.
\<close>

theorem failed_update_shift_change_nothing:
  "(update d self = Raise e self' \<longrightarrow>
      self' = self \<and> (e = exited_error \<or> e = expired_error)) \<and>
   (shift delta self = Raise e self' \<longrightarrow>
      self' = self \<and> (e = exited_error \<or> e = expired_error \<or> e = no_deadline_error))"
  by (auto simp: shift_def dest: update_raise split: option.splits)

subsection \<open>Waiting\<close>

text \<open>
  Claim C9: \<^verbatim>\<open>wait()\<close> raises in no state of the timer. It sets \<^verbatim>\<open>_checked\<close> and changes
  nothing else; it returns at once when the event is set and is parked otherwise, and a
  parked call returns when the event is set and stays parked until then.
\<close>

theorem wait_never_raises:
  "\<not> raises (wait self) \<and> post (wait self) = self\<lparr>checked := True\<rparr> \<and>
   (event self \<longrightarrow> wait self = Return True (self\<lparr>checked := True\<rparr>)) \<and>
   (\<not> event self \<longrightarrow> wait self = Suspend (self\<lparr>checked := True\<rparr>)) \<and>
   \<not> raises (wait_resumed self) \<and>
   (event self \<longrightarrow> wait_resumed self = Return True self) \<and>
   (\<not> event self \<longrightarrow> wait_resumed self = Suspend self)"
  by (simp add: wait_def wait_resumed_def Event_wait_def)


subsection \<open>The theorems at concrete timers\<close>

text \<open>
  Each theorem above that has a hypothesis, applied to timers reached by short runs: a
  timer made with deadline 5 on a loop whose clock shows 0, entered, fired, waited on,
  closed; and a timer made without a deadline.
\<close>

theorem closed_is_terminal_witness:
  "run [Enter] (post (init (Some 5) (fresh_loop (0::real))))
     = Some (exec Enter (post (init (Some 5) (fresh_loop 0)))) \<and>
   enabled (Fire 0) (exec Enter (post (init (Some 5) (fresh_loop (0::real))))) \<and>
   state (exec Enter (post (init (Some 5) (fresh_loop (0::real))))) = ENTER \<and>
   run [Enter, Wait, Exit None] (post (init (Some 5) (fresh_loop (0::real))))
     = Some (exec (Exit None) (exec Wait (exec Enter (post (init (Some 5) (fresh_loop 0)))))) \<and>
   state (exec (Exit None) (exec Wait (exec Enter (post (init (Some 5) (fresh_loop (0::real)))))))
     = EXIT \<and>
   \<not> enabled (Fire 0)
       (exec (Exit None) (exec Wait (exec Enter (post (init (Some 5) (fresh_loop (0::real))))))) \<and>
   enabled (Update 7)
       (exec (Exit None) (exec Wait (exec Enter (post (init (Some 5) (fresh_loop (0::real))))))) \<and>
   state (exec (Update 7)
       (exec (Exit None) (exec Wait (exec Enter (post (init (Some 5) (fresh_loop (0::real))))))))
     = EXIT"
  using
    closed_is_terminal [of "[Enter]" "Some 5" "0::real"
      "exec Enter (post (init (Some 5) (fresh_loop 0)))" 0 "Update 7"]
    closed_is_terminal [of "[Enter, Wait, Exit None]" "Some 5" "0::real"
      "exec (Exit None) (exec Wait (exec Enter (post (init (Some 5) (fresh_loop 0)))))" 0 "Update 7"]
  by (simp add: timer_defs)

theorem pending_callback_invariant_witness:
  "run [Enter] (post (init (Some 5) (fresh_loop (0::real))))
     = Some (exec Enter (post (init (Some 5) (fresh_loop 0)))) \<and>
   timeout_handler (exec Enter (post (init (Some 5) (fresh_loop (0::real))))) = Some 0 \<and>
   state (exec Enter (post (init (Some 5) (fresh_loop (0::real))))) = ENTER \<and>
   deadline (exec Enter (post (init (Some 5) (fresh_loop (0::real))))) \<noteq> None \<and>
   \<not> event (exec Enter (post (init (Some 5) (fresh_loop (0::real))))) \<and>
   pending 0 (loop (exec Enter (post (init (Some 5) (fresh_loop (0::real))))))"
  using
    pending_callback_invariant [of "[Enter]" "Some 5" "0::real"
      "exec Enter (post (init (Some 5) (fresh_loop 0)))" 0]
  by (simp add: timer_defs)

theorem reschedule_active_witness:
  "state (exec Enter (post (init None (fresh_loop (0::real))))) = ENTER \<and>
   deadline (exec Enter (post (init None (fresh_loop (0::real))))) = None \<and>
   reschedule (exec Enter (post (init None (fresh_loop (0::real)))))
     = Return () (exec Enter (post (init None (fresh_loop (0::real))))) \<and>
   state (exec (Clock 9) (exec Enter (post (init (Some 5) (fresh_loop (0::real)))))) = ENTER \<and>
   deadline (exec (Clock 9) (exec Enter (post (init (Some 5) (fresh_loop (0::real)))))) = Some 5 \<and>
   timeout_handler (exec (Clock 9) (exec Enter (post (init (Some 5) (fresh_loop (0::real))))))
     = Some 0 \<and>
   reschedule (exec (Clock 9) (exec Enter (post (init (Some 5) (fresh_loop (0::real))))))
     = Return ()
         \<lparr>deadline = Some 5,
          loop = \<lparr>time = 9, handles = [\<lparr>schedule = At 5, cancelled = True, ran = False\<rparr>,
                                       \<lparr>schedule = Soon, cancelled = False, ran = False\<rparr>]\<rparr>,
          state = ENTER, timeout_handler = Some 1, event = False, checked = False\<rparr>"
  using
    reschedule_active [of "exec Enter (post (init None (fresh_loop (0::real))))"]
    reschedule_active [of "exec (Clock 9) (exec Enter (post (init (Some 5) (fresh_loop (0::real)))))"]
  by (simp add: timer_defs)

theorem shift_is_update_witness:
  "deadline (exec Enter (post (init (Some 5) (fresh_loop (0::real))))) = Some 5 \<and>
   state (exec Enter (post (init (Some 5) (fresh_loop (0::real))))) = ENTER \<and>
   shift (- 10) (exec Enter (post (init (Some 5) (fresh_loop (0::real)))))
     = update (5 + - 10) (exec Enter (post (init (Some 5) (fresh_loop (0::real))))) \<and>
   deadline (post (shift (- 10) (exec Enter (post (init (Some 5) (fresh_loop (0::real)))))))
     = Some (- 5) \<and>
   schedule (last (handles (loop (post (shift (- 10)
       (exec Enter (post (init (Some 5) (fresh_loop (0::real)))))))))) = Soon \<and>
   deadline (exec Enter (post (init None (fresh_loop (0::real))))) = None \<and>
   shift 3 (exec Enter (post (init None (fresh_loop (0::real)))))
     = Raise no_deadline_error (exec Enter (post (init None (fresh_loop (0::real)))))"
  using
    shift_is_update [of "exec Enter (post (init (Some 5) (fresh_loop (0::real))))" 5 "- 10"]
    shift_is_update [of "exec Enter (post (init None (fresh_loop (0::real))))" 0 3]
  by (simp add: timer_defs)

theorem update_after_expiry_or_close_witness:
  "state (exec (Fire 0) (exec Enter (post (init (Some 5) (fresh_loop (0::real)))))) = TIMEOUT \<and>
   update 7 (exec (Fire 0) (exec Enter (post (init (Some 5) (fresh_loop (0::real))))))
     = Raise expired_error (exec (Fire 0) (exec Enter (post (init (Some 5) (fresh_loop (0::real)))))) \<and>
   state (exec (Exit None) (exec Wait (exec Enter (post (init (Some 5) (fresh_loop (0::real)))))))
     = EXIT \<and>
   update 7 (exec (Exit None) (exec Wait (exec Enter (post (init (Some 5) (fresh_loop (0::real)))))))
     = Raise exited_error
         (exec (Exit None) (exec Wait (exec Enter (post (init (Some 5) (fresh_loop (0::real)))))))"
  using
    update_after_expiry_or_close
      [of "exec (Fire 0) (exec Enter (post (init (Some 5) (fresh_loop (0::real)))))" 7]
    update_after_expiry_or_close
      [of "exec (Exit None) (exec Wait (exec Enter (post (init (Some 5) (fresh_loop (0::real))))))" 7]
  by (simp add: timer_defs)

theorem failed_update_shift_change_nothing_witness:
  "update 7 (exec (Fire 0) (exec Enter (post (init (Some 5) (fresh_loop (0::real))))))
     = Raise expired_error (exec (Fire 0) (exec Enter (post (init (Some 5) (fresh_loop (0::real)))))) \<and>
   shift 3 (exec Enter (post (init None (fresh_loop (0::real)))))
     = Raise no_deadline_error (exec Enter (post (init None (fresh_loop (0::real))))) \<and>
   shift 3 (exec (Exit None) (exec Wait (exec Enter (post (init (Some 5) (fresh_loop (0::real)))))))
     = Raise exited_error
         (exec (Exit None) (exec Wait (exec Enter (post (init (Some 5) (fresh_loop (0::real)))))))"
  using
    failed_update_shift_change_nothing
      [of 7 "exec (Fire 0) (exec Enter (post (init (Some 5) (fresh_loop (0::real)))))"
          expired_error "exec (Fire 0) (exec Enter (post (init (Some 5) (fresh_loop (0::real)))))"]
    failed_update_shift_change_nothing
      [of _ "exec Enter (post (init None (fresh_loop (0::real))))"
          no_deadline_error "exec Enter (post (init None (fresh_loop (0::real))))" 3]
    failed_update_shift_change_nothing
      [of _ "exec (Exit None) (exec Wait (exec Enter (post (init (Some 5) (fresh_loop (0::real))))))"
          exited_error
          "exec (Exit None) (exec Wait (exec Enter (post (init (Some 5) (fresh_loop (0::real))))))" 3]
  by (simp add: timer_defs)

theorem wait_never_raises_witness:
  "state (post (init (Some 5) (fresh_loop (0::real)))) = INIT \<and>
   wait (post (init (Some 5) (fresh_loop (0::real))))
     = Suspend ((post (init (Some 5) (fresh_loop (0::real))))\<lparr>checked := True\<rparr>) \<and>
   state (exec Enter (post (init (Some 5) (fresh_loop (0::real))))) = ENTER \<and>
   wait (exec Enter (post (init (Some 5) (fresh_loop (0::real)))))
     = Suspend ((exec Enter (post (init (Some 5) (fresh_loop (0::real)))))\<lparr>checked := True\<rparr>) \<and>
   state (exec (Fire 0) (exec Enter (post (init (Some 5) (fresh_loop (0::real)))))) = TIMEOUT \<and>
   wait (exec (Fire 0) (exec Enter (post (init (Some 5) (fresh_loop (0::real))))))
     = Return True
         ((exec (Fire 0) (exec Enter (post (init (Some 5) (fresh_loop (0::real))))))\<lparr>checked := True\<rparr>) \<and>
   state (exec (Exit None) (exec Wait (exec Enter (post (init (Some 5) (fresh_loop (0::real)))))))
     = EXIT \<and>
   wait (exec (Exit None) (exec Wait (exec Enter (post (init (Some 5) (fresh_loop (0::real)))))))
     = Suspend (exec (Exit None) (exec Wait (exec Enter (post (init (Some 5) (fresh_loop (0::real)))))))"
  using
    wait_never_raises [of "post (init (Some 5) (fresh_loop (0::real)))"]
    wait_never_raises [of "exec Enter (post (init (Some 5) (fresh_loop (0::real))))"]
    wait_never_raises [of "exec (Fire 0) (exec Enter (post (init (Some 5) (fresh_loop (0::real)))))"]
    wait_never_raises
      [of "exec (Exit None) (exec Wait (exec Enter (post (init (Some 5) (fresh_loop (0::real))))))"]
  by (simp add: timer_defs)

end
